theory Spec2Isabelle
  imports Complex_Main "HOL-Library.Signed_Division" "HOL-Library.Log_Nat"
begin

section \<open>ccputemp: constants and data model\<close>

text \<open>
  The program is the single file \<^verbatim>\<open>ccputemp.c\<close>. A value of the C type \<^verbatim>\<open>float\<close> is
  the real number it stands for, an IEEE single precision (binary32) number. Every
  \<^verbatim>\<open>float\<close> operation, constant and conversion of the source yields the exact result
  rounded to the nearest binary32 number, ties to the even significand (\<open>float_round\<close>
  below): each operation is rounded on its own, as with SSE arithmetic on x86-64. The
  constants \<^verbatim>\<open>FLT_MAX\<close> and \<^verbatim>\<open>FLT_MIN\<close> of \<^verbatim>\<open>float.h\<close> have their binary32 values.

  The model has no infinities and no NaN: a result above \<^verbatim>\<open>FLT_MAX\<close> in magnitude, which is
  an infinity in C, is outside it. No value of a run comes near: a sample is an integer of
  magnitude at most 2147483 (an \<^verbatim>\<open>int\<close> divided by 1000) or its conversion, below
  \<open>4 * 10^6\<close>, and a sum of such samples stops growing long before \<^verbatim>\<open>FLT_MAX\<close>.
\<close>

datatype temp_unit_t = CELSIUS | FAHRENHEIT | KELVIN

definition g_default_temp_unit :: temp_unit_t where
  "g_default_temp_unit = CELSIUS"

definition g_default_runtime_secs :: int where
  "g_default_runtime_secs = 5"

definition g_default_log_file :: string where
  "g_default_log_file = ''/var/log/cputemp.log''"

definition g_thermal_path_list :: "string list" where
  "g_thermal_path_list =
    [''/sys/devices/LNXSYSTM:00/LNXTHERM:00/LNXTHERM:01/thermal_zone/temp'',
     ''/sys/bus/acpi/devices/LNXTHERM:00/thermal_zone/temp'',
     ''/proc/acpi/thermal_zone/THM0/temperature'',
     ''/proc/acpi/thermal_zone/THRM/temperature'',
     ''/proc/acpi/thermal_zone/THR1/temperature'']"

text \<open>
  \<^verbatim>\<open>g_thermal_path_list_len = sizeof(g_thermal_path_list)\<close>: the size of the array in bytes,
  that is its five elements times the size \<open>psz\<close> of a \<^verbatim>\<open>const char *\<close> (8 on x86-64
  Linux, 4 on 32-bit Linux). The pointer size belongs to the platform and is a parameter.
\<close>

definition g_thermal_path_list_len :: "nat \<Rightarrow> nat" where
  "g_thermal_path_list_len psz = length g_thermal_path_list * psz"

definition FLT_MAX :: real where
  "FLT_MAX = (2 ^ 24 - 1) * 2 ^ 104"

definition FLT_MIN :: real where
  "FLT_MIN = 1 / 2 ^ 126"

subsection \<open>Float arithmetic\<close>

text \<open>The integer nearest to \<open>q\<close>, the even one of the two when \<open>q\<close> lies half way.\<close>

definition round_half_even :: "real \<Rightarrow> int" where
  "round_half_even q =
     (let f = \<lfloor>q\<rfloor>; d = q - of_int f
      in if d < 1 / 2 then f else if 1 / 2 < d then f + 1 else if even f then f else f + 1)"

text \<open>The exponent \<open>e\<close> of a positive number \<open>a\<close>: \<open>2^e \<le> a < 2^(e + 1)\<close>.\<close>

definition float_exponent :: "real \<Rightarrow> int" where
  "float_exponent a = (if 1 \<le> a then bitlen \<lfloor>a\<rfloor> - 1 else - bitlen (\<lceil>1 / a\<rceil> - 1))"

text \<open>
  Rounding to binary32: a significand of 24 bits, so the numbers with the exponent \<open>e\<close> are
  the multiples of \<open>2^(e - 23)\<close>, and the least exponent is -126 (below it the numbers are
  the subnormal ones, multiples of \<open>2^-149\<close>).
\<close>

definition float_round :: "real \<Rightarrow> real" where
  "float_round x =
     (if x = 0 then 0
      else (let e = max (float_exponent \<bar>x\<bar>) (- 126); ulp = 2 powi (e - 23)
            in of_int (round_half_even (x / ulp)) * ulp))"

definition fadd :: "real \<Rightarrow> real \<Rightarrow> real" where
  "fadd a b = float_round (a + b)"

definition fmul :: "real \<Rightarrow> real \<Rightarrow> real" where
  "fmul a b = float_round (a * b)"

definition fdiv :: "real \<Rightarrow> real \<Rightarrow> real" where
  "fdiv a b = float_round (a / b)"

text \<open>The conversions \<^verbatim>\<open>(float)\<close> of an \<^verbatim>\<open>int\<close> and of a \<^verbatim>\<open>size_t\<close>.\<close>

definition float_of_int :: "int \<Rightarrow> real" where
  "float_of_int k = float_round (real_of_int k)"

definition float_of_nat :: "nat \<Rightarrow> real" where
  "float_of_nat n = float_round (real n)"

subsection \<open>Unit conversion\<close>

text \<open>
  \<^verbatim>\<open>1.8f * val + 32.0f\<close> and \<^verbatim>\<open>val + 273.15f\<close>: the constants are the binary32 numbers
  nearest to 1.8, 32 and 273.15, and the product and the sums are rounded.
\<close>

definition ccputemp_convert_unit_from_celsius :: "real \<Rightarrow> temp_unit_t \<Rightarrow> real" where
  "ccputemp_convert_unit_from_celsius val unit =
     (if unit = CELSIUS then val
      else if unit = FAHRENHEIT then fadd (fmul (float_round 1.8) val) (float_round 32.0)
      else fadd val (float_round 273.15))"

definition ccputemp_temp_unit_t_to_str :: "temp_unit_t \<Rightarrow> string" where
  "ccputemp_temp_unit_t_to_str unit =
     (if unit = CELSIUS then ''Celsius''
      else if unit = FAHRENHEIT then ''Fahrenheit''
      else ''Kelvin'')"

section \<open>The environment: files\<close>

text \<open>
  What the program sees of a file: whether \<^verbatim>\<open>fopen(path, "r")\<close> and \<^verbatim>\<open>fopen(path, "a")\<close>
  succeed, whether reading from the open stream fails with an error, and its bytes.
  A file system maps the paths that exist (those for which \<^verbatim>\<open>stat\<close> returns 0) to such a
  file.
\<close>

record file_node =
  can_read :: bool
  can_append :: bool
  read_error :: bool
  bytes :: string

type_synonym filesystem = "string \<rightharpoonup> file_node"

definition stat :: "filesystem \<Rightarrow> string \<Rightarrow> int" where
  "stat fs path = (case fs path of None \<Rightarrow> -1 | Some f \<Rightarrow> 0)"

text \<open>\<^verbatim>\<open>fopen(path, "r")\<close>: the open stream, or \<open>None\<close> for the null pointer.\<close>

definition fopen_r :: "filesystem \<Rightarrow> string \<Rightarrow> file_node option" where
  "fopen_r fs path =
     (case fs path of None \<Rightarrow> None | Some f \<Rightarrow> if can_read f then Some f else None)"

text \<open>
  \<^verbatim>\<open>fopen(path, "a")\<close> for a path that exists (the only use, after \<^verbatim>\<open>stat\<close> succeeded).
\<close>

definition fopen_a :: "filesystem \<Rightarrow> string \<Rightarrow> file_node option" where
  "fopen_a fs path =
     (case fs path of None \<Rightarrow> None | Some f \<Rightarrow> if can_append f then Some f else None)"

definition newline :: char where
  "newline = CHR 0x0A"

text \<open>The bytes up to and including the first newline, or all of them if there is none.\<close>

fun first_line :: "string \<Rightarrow> string" where
  "first_line [] = []"
| "first_line (c # cs) = (if c = newline then [c] else c # first_line cs)"

text \<open>
  \<^verbatim>\<open>fgets(buf, n, stream)\<close> on a freshly opened stream: at most \<open>n - 1\<close> bytes of the first
  line are stored, and the null pointer (\<open>None\<close>) is returned on a read error or when the
  end of the file is met before any byte. The buffer was zeroed, so what is stored is the
  C string the caller sees.
\<close>

definition fgets :: "nat \<Rightarrow> file_node \<Rightarrow> string option" where
  "fgets n f =
     (if read_error f then None
      else if bytes f = [] then None
      else Some (take (n - 1) (first_line (bytes f))))"

subsection \<open>atoi\<close>

definition isspace :: "char \<Rightarrow> bool" where
  "isspace c = (c = CHR '' '' \<or> c = CHR 0x09 \<or> c = CHR 0x0A \<or> c = CHR 0x0B
                \<or> c = CHR 0x0C \<or> c = CHR 0x0D)"

definition isdigit :: "char \<Rightarrow> bool" where
  "isdigit c = (48 \<le> (of_char c :: nat) \<and> (of_char c :: nat) \<le> 57)"

definition digit_val :: "char \<Rightarrow> int" where
  "digit_val c = int (of_char c) - 48"

text \<open>The value of the longest prefix of decimal digits, most significant digit first.\<close>

fun digits_value :: "int \<Rightarrow> string \<Rightarrow> int" where
  "digits_value acc [] = acc"
| "digits_value acc (c # cs) =
     (if isdigit c then digits_value (10 * acc + digit_val c) cs else acc)"

definition LONG_MAX :: int where
  "LONG_MAX = 2 ^ 63 - 1"

definition LONG_MIN :: int where
  "LONG_MIN = - (2 ^ 63)"

text \<open>
  \<^verbatim>\<open>strtol(s, NULL, 10)\<close>: white space is skipped, then an optional sign and the decimal
  digits that follow are read; a string with no digits there has the value 0. A value
  outside the range of \<^verbatim>\<open>long\<close> (64 bits, as on x86-64 Linux) is clamped to it.
\<close>

definition strtol :: "string \<Rightarrow> int" where
  "strtol s =
     (let t = dropWhile isspace s;
          v = (case t of
                 [] \<Rightarrow> 0
               | c # cs \<Rightarrow>
                   if c = CHR ''-'' then - digits_value 0 cs
                   else if c = CHR ''+'' then digits_value 0 cs
                   else digits_value 0 t)
      in max LONG_MIN (min LONG_MAX v))"

text \<open>The conversion of a \<^verbatim>\<open>long\<close> to \<^verbatim>\<open>int\<close>: the low 32 bits, read as a signed value.\<close>

definition int_of_long :: "int \<Rightarrow> int" where
  "int_of_long v = (v + 2 ^ 31) mod 2 ^ 32 - 2 ^ 31"

text \<open>
  \<^verbatim>\<open>atoi\<close>. ISO C leaves the result undefined when the number does not fit an \<^verbatim>\<open>int\<close>;
  the GNU C library, which this Linux program is built against, computes
  \<^verbatim>\<open>(int) strtol(s, NULL, 10)\<close>, and that is the model. For every number that fits an
  \<^verbatim>\<open>int\<close> it is the number.
\<close>

definition atoi :: "string \<Rightarrow> int" where
  "atoi s = int_of_long (strtol s)"

section \<open>Reading a sample\<close>

text \<open>
  A pointer argument that may be null is an \<open>option\<close>: \<open>src_file\<close> is the path or
  \<open>None\<close>, and \<open>val\<close> is \<open>None\<close> or the current contents of the \<^verbatim>\<open>float\<close> it points to.
  The result is the returned \<^verbatim>\<open>int\<close> with the contents of \<open>*val\<close> afterwards. The
  quotient \<^verbatim>\<open>atoi(tmp_buf) / 1000\<close> is a division of two \<^verbatim>\<open>int\<close>s, which truncates
  towards zero (\<open>sdiv\<close>), and only its result is converted to \<^verbatim>\<open>float\<close> (without
  loss: its magnitude is at most 2147483, below \<open>2^24\<close>).
\<close>

definition ccputemp_get_thermal_value_from_file ::
    "filesystem \<Rightarrow> string option \<Rightarrow> real option \<Rightarrow> int \<times> real option" where
  "ccputemp_get_thermal_value_from_file fs src_file val =
     (let tmp_buf_len = 32 in
      case src_file of
        None \<Rightarrow> (-1, val)
      | Some path \<Rightarrow>
          (case val of
             None \<Rightarrow> (-1, val)
           | Some old \<Rightarrow>
               (case fopen_r fs path of
                  None \<Rightarrow> (-1, val)
                | Some file_handle \<Rightarrow>
                    (case fgets tmp_buf_len file_handle of
                       None \<Rightarrow> (-1, val)
                     | Some tmp_buf \<Rightarrow> (0, Some (float_of_int (atoi tmp_buf sdiv 1000)))))))"

definition ccputemp_get_unit_temp_from_file ::
    "filesystem \<Rightarrow> string option \<Rightarrow> temp_unit_t \<Rightarrow> real option \<Rightarrow> int \<times> real option" where
  "ccputemp_get_unit_temp_from_file fs src_file unit val =
     (case src_file of
        None \<Rightarrow> (-1, val)
      | Some path \<Rightarrow>
          (case val of
             None \<Rightarrow> (-1, val)
           | Some old \<Rightarrow>
               (case ccputemp_get_thermal_value_from_file fs src_file val of
                  (r, val') \<Rightarrow>
                    if r = -1 then (-1, val')
                    else (0, map_option (\<lambda>v. ccputemp_convert_unit_from_celsius v unit) val'))))"

section \<open>Locating the source\<close>

text \<open>
  Behaviour that C leaves undefined is a value of the model: reading the array
  \<^verbatim>\<open>g_thermal_path_list\<close> at an index that is not below its five elements, and passing a
  null stream to \<^verbatim>\<open>fprintf\<close>. A function whose execution meets one stops there.
\<close>

datatype fault = OutOfBounds nat | NullStream

datatype 'a result = Returned 'a | Undefined fault

text \<open>
  The loop of \<^verbatim>\<open>ccputemp_get_thermal_path\<close> from index \<open>i\<close> on. The loop bound is
  \<^verbatim>\<open>g_thermal_path_list_len\<close>; \<open>None\<close> is the null pointer returned after the loop.
\<close>

function ccputemp_get_thermal_path_from :: "nat \<Rightarrow> filesystem \<Rightarrow> nat \<Rightarrow> string option result" where
  "ccputemp_get_thermal_path_from psz fs i =
     (if i < g_thermal_path_list_len psz then
        (if i < length g_thermal_path_list then
           (if stat fs (g_thermal_path_list ! i) = 0 then Returned (Some (g_thermal_path_list ! i))
            else ccputemp_get_thermal_path_from psz fs (i + 1))
         else Undefined (OutOfBounds i))
      else Returned None)"
  by pat_completeness auto
termination
  by (relation "measure (\<lambda>(psz, fs, i). g_thermal_path_list_len psz - i)") auto

definition ccputemp_get_thermal_path :: "nat \<Rightarrow> filesystem \<Rightarrow> string option result" where
  "ccputemp_get_thermal_path psz fs = ccputemp_get_thermal_path_from psz fs 0"

section \<open>What a run does\<close>

text \<open>
  What a run does, in order: the samples it reads from the source, the lines it writes to
  standard output and to the error stream (with the values they print), its calls of
  \<^verbatim>\<open>sleep(1)\<close>, and the entry it appends to the log file. The time stamp of a log entry
  is not part of the model.
\<close>

datatype event =
    Version
  | NoSourceNormal
  | NoSourceAvg
  | PossibleSource string
  | UnitPrompt
  | ReadError string
  | Sample real
  | TickLine real string nat
  | Sleep
  | Summary real real real string
  | NotEnough
  | AverageLine real string
  | LogNotFound string
  | LogCannotOpen string
  | LogEntry string int real real real string
  | LogUpdated

text \<open>
  \<open>Sample v\<close> is a successful call of \<^verbatim>\<open>ccputemp_get_unit_temp_from_file\<close> that stored \<open>v\<close>,
  \<open>TickLine avg unit secs\<close> is the line printed at each tick, \<open>Summary highest lowest avg unit\<close>
  the three lines printed after the loop of the normal mode, \<open>AverageLine avg unit\<close> the
  line printed by the average mode, and \<open>LogEntry file secs highest lowest avg unit\<close> the
  block written to the log file.
\<close>

subsection \<open>The logger\<close>

text \<open>
  After \<^verbatim>\<open>fopen(filename, "a")\<close> has returned the null pointer and the message is printed,
  the function goes on to \<^verbatim>\<open>fprintf(file_handle, ...)\<close> with that null stream.
\<close>

definition ccputemp_do_log ::
    "filesystem \<Rightarrow> string option \<Rightarrow> real \<Rightarrow> real \<Rightarrow> real \<Rightarrow> temp_unit_t \<Rightarrow> int
      \<Rightarrow> unit result \<times> event list" where
  "ccputemp_do_log fs filename temp_avg temp_min temp_max unit secs =
     (case filename of
        None \<Rightarrow> (Returned (), [])
      | Some name \<Rightarrow>
          if stat fs name \<noteq> 0 then (Returned (), [LogNotFound name])
          else
            (case fopen_a fs name of
               None \<Rightarrow> (Undefined NullStream, [LogCannotOpen name])
             | Some file_handle \<Rightarrow>
                 (let unit_str = ccputemp_temp_unit_t_to_str unit
                  in (Returned (),
                      [LogEntry name secs temp_max temp_min temp_avg unit_str, LogUpdated]))))"

subsection \<open>The environment of a run\<close>

text \<open>
  A run sees the file system at several moments: \<open>fs 0\<close> when the source is located, \<open>fs i\<close>
  when the sample of the tick with \<^verbatim>\<open>i\<close> completed ticks before it is read, and \<open>fs n\<close>
  when the log is written after \<open>n\<close> ticks. \<open>sig i\<close> tells whether \<^verbatim>\<open>g_ctrl_c_signal\<close> is
  set (the handler has run) when the loop condition is evaluated with the counter at \<open>i\<close>.
  \<open>stdin\<close> is what standard input holds, up to its end.

  The counter \<^verbatim>\<open>i\<close> is a \<^verbatim>\<open>size_t\<close>. The model counts in \<open>nat\<close>, which is the same for
  every run of fewer than \<^verbatim>\<open>SIZE_MAX\<close> ticks. Where \<^verbatim>\<open>seconds\<close> (an \<^verbatim>\<open>int\<close>) is
  converted to \<^verbatim>\<open>size_t\<close> or compared with \<^verbatim>\<open>i\<close>, it has been made at least 1 before
  (lines 159-160 and 233-234), so the conversion keeps its value.
\<close>

subsection \<open>The average mode\<close>

text \<open>The \<^verbatim>\<open>for\<close> loop of lines 154-155, from index \<open>j\<close> on.\<close>

function print_sources_from :: "nat \<Rightarrow> nat \<Rightarrow> event list \<Rightarrow> unit result \<times> event list" where
  "print_sources_from psz j out =
     (if j < g_thermal_path_list_len psz then
        (if j < length g_thermal_path_list then
           print_sources_from psz (j + 1) (out @ [PossibleSource (g_thermal_path_list ! j)])
         else (Undefined (OutOfBounds j), out))
      else (Returned (), out))"
  by pat_completeness auto
termination
  by (relation "measure (\<lambda>(psz, j, out). g_thermal_path_list_len psz - j)") auto

text \<open>
  The sampling loop of lines 162-171, from the counter \<open>i\<close> on; \<open>Inl\<close> is the return from
  inside the loop after a failed read, \<open>Inr\<close> the state in which the loop is left.
\<close>

function ccputemp_do_avg_loop ::
    "(nat \<Rightarrow> filesystem) \<Rightarrow> string \<Rightarrow> temp_unit_t \<Rightarrow> int \<Rightarrow> nat \<Rightarrow> real \<Rightarrow> real \<Rightarrow> event list
      \<Rightarrow> event list + (nat \<times> real \<times> event list)" where
  "ccputemp_do_avg_loop fs src_path unit seconds i temp_sum cur_val out =
     (if i < nat seconds then
        (case ccputemp_get_unit_temp_from_file (fs i) (Some src_path) unit (Some cur_val) of
           (r, v) \<Rightarrow>
             if r = -1 then Inl (out @ [ReadError src_path])
             else
               (let cur_val' = (case v of None \<Rightarrow> cur_val | Some x \<Rightarrow> x)
                in ccputemp_do_avg_loop fs src_path unit seconds (i + 1)
                     (fadd temp_sum cur_val')
                     cur_val' (out @ [Sample cur_val', Sleep])))
      else Inr (i, temp_sum, out))"
  by pat_completeness auto
termination
  by (relation "measure (\<lambda>(fs, src_path, unit, seconds, i, rest). nat seconds - i)") auto

definition ccputemp_do_avg ::
    "nat \<Rightarrow> (nat \<Rightarrow> filesystem) \<Rightarrow> int \<Rightarrow> temp_unit_t \<Rightarrow> int \<Rightarrow> int result \<times> event list" where
  "ccputemp_do_avg psz fs opt_unit unit seconds =
     (case ccputemp_get_thermal_path psz (fs 0) of
        Undefined f \<Rightarrow> (Undefined f, [])
      | Returned None \<Rightarrow>
          (case print_sources_from psz 0 [Version, NoSourceAvg] of
             (Undefined f, out) \<Rightarrow> (Undefined f, out)
           | (Returned u, out) \<Rightarrow> (Returned (-1), out))
      | Returned (Some src_path) \<Rightarrow>
          (let seconds' = (if seconds < 1 then g_default_runtime_secs else seconds)
           in case ccputemp_do_avg_loop fs src_path unit seconds' 0 0 0 [Version] of
                Inl out \<Rightarrow> (Returned (-1), out)
              | Inr (i, temp_sum, out) \<Rightarrow>
                  (Returned 0,
                   out @ [AverageLine (fdiv temp_sum (float_of_int seconds'))
                            (ccputemp_temp_unit_t_to_str unit)])))"

subsection \<open>The normal mode\<close>

text \<open>The macros \<^verbatim>\<open>min\<close> and \<^verbatim>\<open>max\<close> of lines 35-36.\<close>

definition min_macro :: "real \<Rightarrow> real \<Rightarrow> real" where
  "min_macro a b = (if a < b then a else b)"

definition max_macro :: "real \<Rightarrow> real \<Rightarrow> real" where
  "max_macro a b = (if a > b then a else b)"

definition tolower :: "char \<Rightarrow> char" where
  "tolower c =
     (if 65 \<le> (of_char c :: nat) \<and> (of_char c :: nat) \<le> 90 then char_of (of_char c + 32 :: nat)
      else c)"

text \<open>
  The loop of lines 223-228 that asks for the unit. At the end of standard input
  \<^verbatim>\<open>fscanf\<close> stores nothing, \<^verbatim>\<open>input_c\<close> keeps its value and the loop never ends: that is
  the result \<open>None\<close>. Otherwise the result is the final \<^verbatim>\<open>input_c\<close> with the prompts printed.
\<close>

fun unit_prompt_loop :: "char \<Rightarrow> string \<Rightarrow> event list \<Rightarrow> (char \<times> event list) option" where
  "unit_prompt_loop input_c stdin out =
     (if input_c \<noteq> CHR ''c'' \<and> input_c \<noteq> CHR ''f'' \<and> input_c \<noteq> CHR ''k'' then
        (case stdin of
           [] \<Rightarrow> None
         | c # rest \<Rightarrow> unit_prompt_loop (tolower c) rest (out @ [UnitPrompt]))
      else Some (input_c, out))"

datatype loop_exit =
    ReadFailed "event list"
  | LoopLeft nat real real real "event list"

text \<open>
  The \<^verbatim>\<open>while\<close> loop of lines 244-259, from a state of its variables on:
  \<open>ReadFailed\<close> is the return from inside the loop, \<open>LoopLeft i temp_sum temp_min temp_max out\<close>
  the state in which the loop is left. A loop that is never left has no result (\<open>None\<close>).
\<close>

partial_function (option) ccputemp_do_normal_loop ::
    "(nat \<Rightarrow> filesystem) \<Rightarrow> (nat \<Rightarrow> bool) \<Rightarrow> string \<Rightarrow> temp_unit_t \<Rightarrow> int \<Rightarrow> int
      \<Rightarrow> nat \<Rightarrow> real \<Rightarrow> real \<Rightarrow> real \<Rightarrow> real \<Rightarrow> event list \<Rightarrow> loop_exit option" where
  [code]: "ccputemp_do_normal_loop fs sig src_path unit seconds opt_seconds
       i temp_sum temp_min temp_max cur_val out =
     (if sig i then Some (LoopLeft i temp_sum temp_min temp_max out)
      else if opt_seconds \<noteq> 0 \<and> int i \<ge> seconds
        then Some (LoopLeft i temp_sum temp_min temp_max out)
      else
        (case ccputemp_get_unit_temp_from_file (fs i) (Some src_path) unit (Some cur_val) of
           (r, v) \<Rightarrow>
             if r = -1 then Some (ReadFailed (out @ [ReadError src_path]))
             else
               (let cur_val' = (case v of None \<Rightarrow> cur_val | Some x \<Rightarrow> x);
                    temp_sum' = fadd temp_sum cur_val';
                    temp_min' = min_macro temp_min cur_val';
                    temp_max' = max_macro temp_max cur_val'
                in ccputemp_do_normal_loop fs sig src_path unit seconds opt_seconds
                     (i + 1) temp_sum' temp_min' temp_max' cur_val'
                     (out @ [Sample cur_val',
                             TickLine (fdiv temp_sum' (float_of_nat (i + 1)))
                               (ccputemp_temp_unit_t_to_str unit) (i + 1),
                             Sleep]))))"

definition ccputemp_do_normal ::
    "nat \<Rightarrow> (nat \<Rightarrow> filesystem) \<Rightarrow> (nat \<Rightarrow> bool) \<Rightarrow> string \<Rightarrow> int \<Rightarrow> temp_unit_t \<Rightarrow> int \<Rightarrow> int
      \<Rightarrow> (int result \<times> event list) option" where
  "ccputemp_do_normal psz fs sig stdin opt_unit unit seconds opt_seconds =
     (case ccputemp_get_thermal_path psz (fs 0) of
        Undefined f \<Rightarrow> Some (Undefined f, [])
      | Returned None \<Rightarrow> Some (Returned (-1), [Version, NoSourceNormal])
      | Returned (Some src_path) \<Rightarrow>
          (case (if opt_unit = 0 then unit_prompt_loop (CHR 0x00) stdin [Version]
                 else Some (CHR 0x00, [Version])) of
             None \<Rightarrow> None
           | Some (input_c, out0) \<Rightarrow>
               (let unit' = (if opt_unit = 0
                             then (if input_c = CHR ''c'' then CELSIUS
                                   else if input_c = CHR ''f'' then FAHRENHEIT else KELVIN)
                             else unit);
                    seconds' = (if opt_seconds \<noteq> 0 \<and> seconds < 1 then g_default_runtime_secs
                                else seconds);
                    unit_str = ccputemp_temp_unit_t_to_str unit'
                in case ccputemp_do_normal_loop fs sig src_path unit' seconds' opt_seconds
                          0 0 FLT_MAX FLT_MIN 0 out0 of
                     None \<Rightarrow> None
                   | Some (ReadFailed out) \<Rightarrow> Some (Returned (-1), out)
                   | Some (LoopLeft i temp_sum temp_min temp_max out) \<Rightarrow>
                       if i > 0 then
                         (case ccputemp_do_log (fs i) (Some g_default_log_file)
                                 (fdiv temp_sum (float_of_nat (i + 1))) temp_min temp_max unit' (int (i + 1)) of
                            (Undefined f, lout) \<Rightarrow>
                              Some (Undefined f,
                                    out @ [Summary temp_max temp_min (fdiv temp_sum (float_of_nat (i + 1)))
                                             unit_str] @ lout)
                          | (Returned u, lout) \<Rightarrow>
                              Some (Returned 0,
                                    out @ [Summary temp_max temp_min (fdiv temp_sum (float_of_nat (i + 1)))
                                             unit_str] @ lout))
                       else Some (Returned 0, out @ [NotEnough]))))"

section \<open>Notions used to state the properties\<close>

text \<open>The samples a run has read, in order.\<close>

fun samples :: "event list \<Rightarrow> real list" where
  "samples [] = []"
| "samples (Sample v # es) = v # samples es"
| "samples (e # es) = samples es"

text \<open>A file that can be opened for reading, not for appending, and holds the bytes \<open>s\<close>.\<close>

definition read_only_file :: "string \<Rightarrow> file_node" where
  "read_only_file s = \<lparr>can_read = True, can_append = False, read_error = False, bytes = s\<rparr>"

text \<open>
  A file system with a single file, the fourth candidate path, that holds the bytes
  \<open>reading t\<close> at the time \<open>t\<close>.
\<close>

definition sensor :: "(nat \<Rightarrow> string) \<Rightarrow> nat \<Rightarrow> filesystem" where
  "sensor reading t =
     [''/proc/acpi/thermal_zone/THRM/temperature'' \<mapsto> read_only_file (reading t)]"

text \<open>
  Contents that can be parsed as an integer: after white space, an optional sign and at
  least one decimal digit.
\<close>

definition begins_with_integer :: "string \<Rightarrow> bool" where
  "begins_with_integer s =
     (case dropWhile isspace s of
        [] \<Rightarrow> False
      | c # cs \<Rightarrow>
          if c = CHR ''-'' \<or> c = CHR ''+'' then (case cs of [] \<Rightarrow> False | d # ds \<Rightarrow> isdigit d)
          else isdigit c)"

text \<open>The calls of \<^verbatim>\<open>sleep(1)\<close> in a run: one at the end of every completed tick.\<close>

definition ticks :: "event list \<Rightarrow> nat" where
  "ticks out = length (filter (\<lambda>e. e = Sleep) out)"

text \<open>
  What the code does after the sampling loop: the summary or the average line, the message
  that no sample was collected, and everything the logger prints or writes.
\<close>

fun final_report :: "event list \<Rightarrow> event list" where
  "final_report [] = []"
| "final_report (Summary h l a u # es) = Summary h l a u # final_report es"
| "final_report (AverageLine a u # es) = AverageLine a u # final_report es"
| "final_report (LogEntry f n h l a u # es) = LogEntry f n h l a u # final_report es"
| "final_report (LogUpdated # es) = LogUpdated # final_report es"
| "final_report (NotEnough # es) = NotEnough # final_report es"
| "final_report (LogNotFound f # es) = LogNotFound f # final_report es"
| "final_report (LogCannotOpen f # es) = LogCannotOpen f # final_report es"
| "final_report (e # es) = final_report es"

text \<open>A read of the source succeeds: the sample reader returns 0.\<close>

definition read_ok :: "filesystem \<Rightarrow> string \<Rightarrow> bool" where
  "read_ok fs src_path = (fst (ccputemp_get_thermal_value_from_file fs (Some src_path) (Some 0)) = 0)"

text \<open>The sample, in the unit of the run, that a successful read of the source gives.\<close>

definition read_sample :: "filesystem \<Rightarrow> string \<Rightarrow> temp_unit_t \<Rightarrow> real option" where
  "read_sample fs src_path unit =
     (case ccputemp_get_unit_temp_from_file fs (Some src_path) unit (Some 0) of
        (r, v) \<Rightarrow> if r = -1 then None else v)"

text \<open>
  The events of the ticks in which the normal mode reads the samples \<open>xs\<close>, starting with
  the sum \<open>s\<close> and the counter \<open>i\<close>, and those of the average mode.
\<close>

fun tick_events :: "string \<Rightarrow> real \<Rightarrow> nat \<Rightarrow> real list \<Rightarrow> event list" where
  "tick_events u s i [] = []"
| "tick_events u s i (x # xs) =
     [Sample x, TickLine (fdiv (fadd s x) (float_of_nat (i + 1))) u (i + 1), Sleep]
     @ tick_events u (fadd s x) (i + 1) xs"

fun avg_events :: "real list \<Rightarrow> event list" where
  "avg_events [] = []"
| "avg_events (x # xs) = [Sample x, Sleep] @ avg_events xs"

text \<open>A character that ends the loop asking for the unit.\<close>

definition is_unit_answer :: "char \<Rightarrow> bool" where
  "is_unit_answer c = (tolower c = CHR ''c'' \<or> tolower c = CHR ''f'' \<or> tolower c = CHR ''k'')"

section \<open>Lemmas\<close>

declare ccputemp_do_avg_loop.simps [simp del]
declare ccputemp_get_thermal_path_from.simps [simp del]
declare print_sources_from.simps [simp del]
declare unit_prompt_loop.simps [simp del]

subsection \<open>Rounding and the unit conversion\<close>

lemma round_half_even_error: "\<bar>of_int (round_half_even q) - q\<bar> \<le> 1 / 2"
proof -
  have "of_int \<lfloor>q\<rfloor> \<le> q" "q < of_int \<lfloor>q\<rfloor> + 1" by linarith+
  then show ?thesis
    by (auto simp: round_half_even_def Let_def)
qed

lemma float_exponent_lower:
  assumes "0 < a"
  shows "2 powi (float_exponent a) \<le> a"
proof (cases "1 \<le> a")
  case True
  then have pos: "0 < \<lfloor>a\<rfloor>" by linarith
  from bitlen_bounds[OF pos] have "2 ^ nat (bitlen \<lfloor>a\<rfloor> - 1) \<le> \<lfloor>a\<rfloor>" by simp
  then have "(2::real) ^ nat (bitlen \<lfloor>a\<rfloor> - 1) \<le> of_int \<lfloor>a\<rfloor>"
    by (metis of_int_le_iff of_int_numeral of_int_power)
  also have "\<dots> \<le> a" by simp
  finally have le: "(2::real) ^ nat (bitlen \<lfloor>a\<rfloor> - 1) \<le> a" .
  have "1 \<le> bitlen \<lfloor>a\<rfloor>" using pos by (auto simp: bitlen_alt_def)
  then have "(2::real) powi (bitlen \<lfloor>a\<rfloor> - 1) = 2 ^ nat (bitlen \<lfloor>a\<rfloor> - 1)"
    by (simp add: power_int_nonneg_exp)
  with le True show ?thesis by (simp add: float_exponent_def)
next
  case False
  with assms have big: "1 < 1 / a" by (simp add: field_simps)
  define n where "n = \<lceil>1 / a\<rceil> - 1"
  have npos: "0 < n" using big unfolding n_def by linarith
  from bitlen_bounds[OF npos] have "n < 2 ^ nat (bitlen n)" by simp
  then have "n + 1 \<le> 2 ^ nat (bitlen n)" by simp
  then have "real_of_int (n + 1) \<le> 2 ^ nat (bitlen n)"
    by (metis of_int_le_iff of_int_numeral of_int_power)
  moreover have "1 / a \<le> real_of_int (n + 1)" unfolding n_def by simp
  ultimately have "1 / a \<le> 2 ^ nat (bitlen n)" by linarith
  then have "1 / 2 ^ nat (bitlen n) \<le> a"
    using assms by (simp add: field_simps)
  moreover have "(2::real) powi (- bitlen n) = 1 / 2 ^ nat (bitlen n)"
    using bitlen_nonneg[of n] by (simp add: power_int_minus_divide power_int_nonneg_exp)
  ultimately show ?thesis using False by (simp add: float_exponent_def n_def)
qed

lemma float_exponent_upper:
  assumes "0 < a"
  shows "a < 2 powi (float_exponent a + 1)"
proof (cases "1 \<le> a")
  case True
  then have pos: "0 < \<lfloor>a\<rfloor>" by linarith
  from bitlen_bounds[OF pos] have "\<lfloor>a\<rfloor> + 1 \<le> 2 ^ nat (bitlen \<lfloor>a\<rfloor>)" by simp
  then have "real_of_int (\<lfloor>a\<rfloor> + 1) \<le> 2 ^ nat (bitlen \<lfloor>a\<rfloor>)"
    by (metis of_int_le_iff of_int_numeral of_int_power)
  moreover have "a < real_of_int (\<lfloor>a\<rfloor> + 1)" by simp
  ultimately have "a < 2 ^ nat (bitlen \<lfloor>a\<rfloor>)" by linarith
  moreover have "(2::real) powi (bitlen \<lfloor>a\<rfloor>) = 2 ^ nat (bitlen \<lfloor>a\<rfloor>)"
    using bitlen_nonneg[of "\<lfloor>a\<rfloor>"] by (simp add: power_int_nonneg_exp)
  ultimately show ?thesis using True by (simp add: float_exponent_def)
next
  case False
  with assms have big: "1 < 1 / a" by (simp add: field_simps)
  define n where "n = \<lceil>1 / a\<rceil> - 1"
  have npos: "0 < n" using big unfolding n_def by linarith
  have b1: "1 \<le> bitlen n" using npos by (auto simp: bitlen_alt_def)
  from bitlen_bounds[OF npos] have "2 ^ nat (bitlen n - 1) \<le> n" by simp
  then have "(2::real) ^ nat (bitlen n - 1) \<le> real_of_int n"
    by (metis of_int_le_iff of_int_numeral of_int_power)
  moreover have "real_of_int n < 1 / a" unfolding n_def by linarith
  ultimately have "(2::real) ^ nat (bitlen n - 1) < 1 / a" by linarith
  then have "a < 1 / 2 ^ nat (bitlen n - 1)"
    using assms by (simp add: field_simps)
  moreover have "(2::real) powi (- bitlen n + 1) = 1 / 2 ^ nat (bitlen n - 1)"
  proof -
    have "(2::real) powi (- bitlen n + 1) = 2 powi (- (bitlen n - 1))" by simp
    also have "\<dots> = 1 / 2 powi (bitlen n - 1)" by (rule power_int_minus_divide)
    also have "\<dots> = 1 / 2 ^ nat (bitlen n - 1)" using b1 by (simp add: power_int_nonneg_exp)
    finally show ?thesis .
  qed
  ultimately show ?thesis using False by (simp add: float_exponent_def n_def)
qed

lemma float_round_error_ulp:
  assumes "x \<noteq> 0"
  shows "\<bar>float_round x - x\<bar> \<le> 2 powi (max (float_exponent \<bar>x\<bar>) (- 126) - 24)"
proof -
  define e where "e = max (float_exponent \<bar>x\<bar>) (- 126)"
  define ulp :: real where "ulp = 2 powi (e - 23)"
  have ulp: "0 < ulp" by (simp add: ulp_def)
  have fr: "float_round x = of_int (round_half_even (x / ulp)) * ulp"
    using assms by (simp add: float_round_def Let_def e_def ulp_def)
  have "float_round x - x = (of_int (round_half_even (x / ulp)) - x / ulp) * ulp"
    using ulp by (simp add: fr left_diff_distrib)
  then have "\<bar>float_round x - x\<bar> = \<bar>of_int (round_half_even (x / ulp)) - x / ulp\<bar> * ulp"
    using ulp by (simp add: abs_mult)
  also have "\<dots> \<le> 1 / 2 * ulp"
    using round_half_even_error[of "x / ulp"] ulp by (simp add: mult_right_mono)
  also have "\<dots> = 2 powi (e - 24)"
    using power_int_add[of "2::real" "e - 24" 1] by (simp add: ulp_def)
  finally show ?thesis by (simp add: e_def)
qed

text \<open>
  Rounding changes a number by at most the fraction \<open>2^-24\<close> of it, or by \<open>2^-150\<close> among the
  subnormal numbers.
\<close>

lemma float_round_error:
  "\<bar>float_round x - x\<bar> \<le> \<bar>x\<bar> / 2 ^ 24 + 1 / 2 ^ 150"
proof (cases "x = 0")
  case True
  then show ?thesis by (simp add: float_round_def)
next
  case False
  then have pos: "0 < \<bar>x\<bar>" by simp
  show ?thesis
  proof (cases "- 126 \<le> float_exponent \<bar>x\<bar>")
    case True
    then have m: "max (float_exponent \<bar>x\<bar>) (- 126) = float_exponent \<bar>x\<bar>" by simp
    have "2 powi (float_exponent \<bar>x\<bar> - 24) = 2 powi (float_exponent \<bar>x\<bar>) / (2::real) ^ 24"
      by (simp add: power_int_diff)
    also have "\<dots> \<le> \<bar>x\<bar> / 2 ^ 24"
      using float_exponent_lower[OF pos] by (simp add: divide_right_mono)
    finally show ?thesis
      using float_round_error_ulp[OF False] unfolding m by simp
  next
    case False
    then have m: "max (float_exponent \<bar>x\<bar>) (- 126) = - 126" by simp
    have "(2::real) powi (- 126 - 24) = 1 / 2 ^ 150"
      by (simp add: power_int_minus_divide)
    moreover have "0 \<le> \<bar>x\<bar> / 2 ^ 24" by simp
    ultimately show ?thesis
      using float_round_error_ulp[OF \<open>x \<noteq> 0\<close>] unfolding m by linarith
  qed
qed

text \<open>The constants \<^verbatim>\<open>1.8f\<close>, \<^verbatim>\<open>32.0f\<close> and \<^verbatim>\<open>273.15f\<close>.\<close>

lemma float_consts:
  "float_round 1.8 = 7549747 / 4194304"
  "float_round 32.0 = 32"
  "float_round 273.15 = 8950579 / 32768"
  by code_simp+

lemma convert_fahrenheit_error:
  "\<bar>ccputemp_convert_unit_from_celsius c FAHRENHEIT - (1.8 * c + 32)\<bar>
     \<le> (1.8 * \<bar>c\<bar> + 32) / 2 ^ 22"
proof -
  define p where "p = float_round (7549747 / 4194304 * c)"
  define r where "r = float_round (p + 32)"
  have conv: "ccputemp_convert_unit_from_celsius c FAHRENHEIT = r"
    unfolding ccputemp_convert_unit_from_celsius_def fadd_def fmul_def float_consts p_def r_def
    by simp
  have e1: "\<bar>p - 7549747 / 4194304 * c\<bar> \<le> \<bar>7549747 / 4194304 * c\<bar> / 2 ^ 24 + 1 / 2 ^ 150"
    unfolding p_def by (rule float_round_error)
  have e2: "\<bar>r - (p + 32)\<bar> \<le> \<bar>p + 32\<bar> / 2 ^ 24 + 1 / 2 ^ 150"
    unfolding r_def by (rule float_round_error)
  have a: "\<bar>7549747 / 4194304 * c\<bar> = 7549747 / 4194304 * \<bar>c\<bar>" by (simp add: abs_mult)
  show ?thesis
    unfolding conv using e1 e2 unfolding a by (simp add: field_simps) argo
qed


lemma convert_kelvin_error:
  "\<bar>ccputemp_convert_unit_from_celsius c KELVIN - (c + 273.15)\<bar>
     \<le> (\<bar>c\<bar> + 273.15) / 2 ^ 22"
proof -
  define r where "r = float_round (c + 8950579 / 32768)"
  have conv: "ccputemp_convert_unit_from_celsius c KELVIN = r"
    unfolding ccputemp_convert_unit_from_celsius_def fadd_def float_consts r_def
    by simp
  have e: "\<bar>r - (c + 8950579 / 32768)\<bar> \<le> \<bar>c + 8950579 / 32768\<bar> / 2 ^ 24 + 1 / 2 ^ 150"
    unfolding r_def by (rule float_round_error)
  show ?thesis
    unfolding conv using e by (simp add: field_simps) argo
qed

subsection \<open>atoi and the sample reader\<close>

lemma digits_value_no_digit:
  "(case cs of [] \<Rightarrow> True | d # ds \<Rightarrow> \<not> isdigit d) \<Longrightarrow> digits_value acc cs = acc"
  by (cases cs) simp_all

lemma int_of_long_0: "int_of_long (max LONG_MIN (min LONG_MAX 0)) = 0"
  by (simp add: int_of_long_def LONG_MIN_def LONG_MAX_def)

lemma strtol_after_space:
  "dropWhile isspace s = t \<Longrightarrow>
   strtol s = max LONG_MIN (min LONG_MAX
     (case t of [] \<Rightarrow> 0
      | c # cs \<Rightarrow> if c = CHR ''-'' then - digits_value 0 cs
                  else if c = CHR ''+'' then digits_value 0 cs
                  else digits_value 0 t))"
  by (auto simp: strtol_def Let_def)

lemma atoi_no_integer:
  assumes "\<not> begins_with_integer s"
  shows "atoi s = 0"
proof (cases "dropWhile isspace s")
  case Nil
  show ?thesis
    unfolding atoi_def strtol_after_space[OF Nil] by (simp add: int_of_long_0)
next
  case (Cons c cs)
  show ?thesis
  proof (cases "c = CHR ''-'' \<or> c = CHR ''+''")
    case True
    with assms have "case cs of [] \<Rightarrow> True | d # ds \<Rightarrow> \<not> isdigit d"
      unfolding begins_with_integer_def Cons by (auto split: list.splits)
    then have "digits_value 0 cs = 0" by (rule digits_value_no_digit)
    with True show ?thesis
      unfolding atoi_def strtol_after_space[OF Cons] by (auto simp: int_of_long_0)
  next
    case False
    with assms have "\<not> isdigit c"
      unfolding begins_with_integer_def Cons by simp
    then have "digits_value 0 (c # cs) = 0" by simp
    with False show ?thesis
      unfolding atoi_def strtol_after_space[OF Cons] by (simp add: int_of_long_0)
  qed
qed

lemma sample_reader_cases:
  "ccputemp_get_thermal_value_from_file fs (Some path) (Some old) =
     (case fopen_r fs path of None \<Rightarrow> (-1, Some old)
      | Some f \<Rightarrow> (case fgets 32 f of None \<Rightarrow> (-1, Some old)
                   | Some buf \<Rightarrow> (0, Some (float_of_int (atoi buf sdiv 1000)))))"
  by (simp add: ccputemp_get_thermal_value_from_file_def)

lemma unit_temp_read_sample:
  "ccputemp_get_unit_temp_from_file fs (Some p) unit (Some c) =
     (case read_sample fs p unit of None \<Rightarrow> (-1, Some c) | Some x \<Rightarrow> (0, Some x))"
  by (simp add: read_sample_def ccputemp_get_unit_temp_from_file_def ccputemp_get_thermal_value_from_file_def split: option.splits)

lemma read_ok_sample: "read_ok fs p \<longleftrightarrow> read_sample fs p unit \<noteq> None"
  by (simp add: read_ok_def read_sample_def ccputemp_get_unit_temp_from_file_def ccputemp_get_thermal_value_from_file_def split: option.splits)

subsection \<open>The loops\<close>

lemma normal_loop_ticks:
  assumes "\<forall>j < length xs. read_sample (fs (i + j)) src unit = Some (xs ! j)"
      and "\<forall>j < length xs. \<not> sig (i + j)"
      and "opt_seconds \<noteq> 0 \<longrightarrow> int (i + length xs) \<le> seconds"
  shows "ccputemp_do_normal_loop fs sig src unit seconds opt_seconds i s mn mx cv out
       = ccputemp_do_normal_loop fs sig src unit seconds opt_seconds (i + length xs)
           (foldl fadd s xs) (foldl min_macro mn xs) (foldl max_macro mx xs) (last (cv # xs))
           (out @ tick_events (ccputemp_temp_unit_t_to_str unit) s i xs)"
  using assms
proof (induction xs arbitrary: i s mn mx cv out)
  case Nil
  then show ?case by simp
next
  case (Cons x xs)
  have r0: "read_sample (fs i) src unit = Some x" using Cons.prems(1) by force
  have s0: "\<not> sig i" using Cons.prems(2) by force
  have b0: "\<not> (opt_seconds \<noteq> 0 \<and> seconds \<le> int i)" using Cons.prems(3) by auto
  have r: "\<forall>j<length xs. read_sample (fs (Suc i + j)) src unit = Some (xs ! j)"
    using Cons.prems(1) by force
  have sg: "\<forall>j<length xs. \<not> sig (Suc i + j)" using Cons.prems(2) by force
  have b: "opt_seconds \<noteq> 0 \<longrightarrow> int (Suc i + length xs) \<le> seconds" using Cons.prems(3) by simp
  have step: "ccputemp_do_normal_loop fs sig src unit seconds opt_seconds i s mn mx cv out
    = ccputemp_do_normal_loop fs sig src unit seconds opt_seconds (Suc i) (fadd s x)
        (min_macro mn x) (max_macro mx x) x
        (out @ [Sample x, TickLine (fdiv (fadd s x) (float_of_nat (i + 1))) (ccputemp_temp_unit_t_to_str unit) (i + 1), Sleep])"
    by (subst ccputemp_do_normal_loop.simps) (simp add: s0 b0 unit_temp_read_sample r0 Let_def)
  show ?case
    unfolding step Cons.IH[OF r sg b] by simp
qed

lemma unit_prompt_loop_done:
  "input_c = CHR ''c'' \<or> input_c = CHR ''f'' \<or> input_c = CHR ''k''
   \<Longrightarrow> unit_prompt_loop input_c stdin out = Some (input_c, out)"
  by (subst unit_prompt_loop.simps) auto

lemma unit_prompt_loop_step:
  "\<not> (input_c = CHR ''c'' \<or> input_c = CHR ''f'' \<or> input_c = CHR ''k'')
   \<Longrightarrow> unit_prompt_loop input_c (a # rest) out = unit_prompt_loop (tolower a) rest (out @ [UnitPrompt])"
  by (subst unit_prompt_loop.simps) auto

lemma avg_loop_ticks:
  assumes "\<forall>j < length xs. read_sample (fs (i + j)) src unit = Some (xs ! j)"
      and "i + length xs \<le> nat seconds"
  shows "ccputemp_do_avg_loop fs src unit seconds i s cv out
       = ccputemp_do_avg_loop fs src unit seconds (i + length xs) (foldl fadd s xs)
           (last (cv # xs)) (out @ avg_events xs)"
  using assms
proof (induction xs arbitrary: i s cv out)
  case Nil
  then show ?case by simp
next
  case (Cons x xs)
  have r0: "read_sample (fs i) src unit = Some x" using Cons.prems(1) by force
  have b0: "i < nat seconds" using Cons.prems(2) by simp
  have r: "\<forall>j<length xs. read_sample (fs (Suc i + j)) src unit = Some (xs ! j)"
    using Cons.prems(1) by force
  have b: "Suc i + length xs \<le> nat seconds" using Cons.prems(2) by simp
  have step: "ccputemp_do_avg_loop fs src unit seconds i s cv out
    = ccputemp_do_avg_loop fs src unit seconds (Suc i) (fadd s x) x (out @ [Sample x, Sleep])"
    by (subst ccputemp_do_avg_loop.simps) (simp add: b0 unit_temp_read_sample r0 Let_def)
  show ?case
    unfolding step Cons.IH[OF r b] by simp
qed

lemma unit_prompt_answered:
  assumes "input_c = CHR ''c'' \<or> input_c = CHR ''f'' \<or> input_c = CHR ''k''
           \<or> (\<exists>c\<in>set stdin. is_unit_answer c)"
  shows "\<exists>c n. unit_prompt_loop input_c stdin out = Some (c, out @ replicate n UnitPrompt)
           \<and> (c = CHR ''c'' \<or> c = CHR ''f'' \<or> c = CHR ''k'')"
  using assms
proof (induction stdin arbitrary: input_c out)
  case Nil
  then have c: "input_c = CHR ''c'' \<or> input_c = CHR ''f'' \<or> input_c = CHR ''k''" by simp
  then have "unit_prompt_loop input_c [] out = Some (input_c, out @ replicate 0 UnitPrompt)"
    by (simp add: unit_prompt_loop_done)
  with c show ?case by (intro exI[of _ input_c] exI[of _ 0] conjI)
next
  case (Cons a rest)
  show ?case
  proof (cases "input_c = CHR ''c'' \<or> input_c = CHR ''f'' \<or> input_c = CHR ''k''")
    case True
    then have "unit_prompt_loop input_c (a # rest) out = Some (input_c, out @ replicate 0 UnitPrompt)"
      by (simp add: unit_prompt_loop_done)
    with True show ?thesis by (intro exI[of _ input_c] exI[of _ 0] conjI)
  next
    case False
    with Cons.prems have "tolower a = CHR ''c'' \<or> tolower a = CHR ''f'' \<or> tolower a = CHR ''k''
           \<or> (\<exists>c\<in>set rest. is_unit_answer c)"
      by (auto simp: is_unit_answer_def)
    from Cons.IH[OF this, of "out @ [UnitPrompt]"]
    obtain c n where
      h: "unit_prompt_loop (tolower a) rest (out @ [UnitPrompt])
            = Some (c, (out @ [UnitPrompt]) @ replicate n UnitPrompt)"
      and c: "c = CHR ''c'' \<or> c = CHR ''f'' \<or> c = CHR ''k''" by blast
    have "unit_prompt_loop input_c (a # rest) out = Some (c, out @ replicate (Suc n) UnitPrompt)"
      using False h by (simp add: unit_prompt_loop_step)
    with c show ?thesis by (intro exI[of _ c] exI[of _ "Suc n"] conjI)
  qed
qed

lemma stat_0_iff: "stat fs p = 0 \<longleftrightarrow> fs p \<noteq> None"
  by (simp add: stat_def split: option.splits)

lemma thermal_path_from_found:
  assumes "1 \<le> psz"
      and "find (\<lambda>p. fs p \<noteq> None) (drop i g_thermal_path_list) = Some src"
  shows "ccputemp_get_thermal_path_from psz fs i = Returned (Some src)"
  using assms
proof (induction psz fs i rule: ccputemp_get_thermal_path_from.induct)
  case (1 psz fs i)
  have lt: "i < length g_thermal_path_list"
  proof (rule ccontr)
    assume "\<not> i < length g_thermal_path_list"
    then have "drop i g_thermal_path_list = []" by simp
    with "1.prems"(2) show False by simp
  qed
  then have lt': "i < g_thermal_path_list_len psz"
    using "1.prems"(1) unfolding g_thermal_path_list_len_def
    by (metis le_trans less_le_trans mult.right_neutral mult_le_mono2 not_less)
  have d: "drop i g_thermal_path_list = g_thermal_path_list ! i # drop (i + 1) g_thermal_path_list"
    using lt by (simp add: Cons_nth_drop_Suc)
  show ?case
  proof (cases "stat fs (g_thermal_path_list ! i) = 0")
    case True
    then have "src = g_thermal_path_list ! i"
      using "1.prems"(2) d by (simp add: stat_0_iff)
    with True lt lt' show ?thesis
      by (subst ccputemp_get_thermal_path_from.simps) simp
  next
    case False
    then have "find (\<lambda>p. fs p \<noteq> None) (drop (i + 1) g_thermal_path_list) = Some src"
      using "1.prems"(2) d by (simp add: stat_0_iff)
    from "1.IH"[OF lt' lt False "1.prems"(1) this] False lt lt' show ?thesis
      by (subst ccputemp_get_thermal_path_from.simps) simp
  qed
qed

text \<open>When a candidate exists, the locator returns the first one that does.\<close>

lemma thermal_path_found:
  "1 \<le> psz \<Longrightarrow> find (\<lambda>p. fs p \<noteq> None) g_thermal_path_list = Some src
   \<Longrightarrow> ccputemp_get_thermal_path psz fs = Returned (Some src)"
  unfolding ccputemp_get_thermal_path_def by (rule thermal_path_from_found) simp_all

lemma thermal_path_from_none:
  assumes "2 \<le> psz"
      and "i \<le> length g_thermal_path_list"
      and "find (\<lambda>p. fs p \<noteq> None) (drop i g_thermal_path_list) = None"
  shows "ccputemp_get_thermal_path_from psz fs i
           = Undefined (OutOfBounds (length g_thermal_path_list))"
  using assms
proof (induction psz fs i rule: ccputemp_get_thermal_path_from.induct)
  case (1 psz fs i)
  have len: "length g_thermal_path_list = 5" by (simp add: g_thermal_path_list_def)
  have lt': "i < g_thermal_path_list_len psz"
    using "1.prems"(1,2) len by (simp add: g_thermal_path_list_len_def)
  show ?case
  proof (cases "i < length g_thermal_path_list")
    case True
    then have d: "drop i g_thermal_path_list
                    = g_thermal_path_list ! i # drop (i + 1) g_thermal_path_list"
      by (simp add: Cons_nth_drop_Suc)
    have no: "stat fs (g_thermal_path_list ! i) \<noteq> 0"
      using "1.prems"(3) d by (auto simp: stat_0_iff split: if_splits)
    have rest: "find (\<lambda>p. fs p \<noteq> None) (drop (i + 1) g_thermal_path_list) = None"
      using "1.prems"(3) d by (auto split: if_splits)
    have le: "i + 1 \<le> length g_thermal_path_list" using True by simp
    from "1.IH"[OF lt' True no "1.prems"(1) le rest] no True lt' show ?thesis
      by (subst ccputemp_get_thermal_path_from.simps) simp
  next
    case False
    with "1.prems"(2) have "i = length g_thermal_path_list" by simp
    with False lt' show ?thesis
      by (subst ccputemp_get_thermal_path_from.simps) simp
  qed
qed

text \<open>
  With pointers of two bytes or more and no candidate on the file system, the locator reads
  the array at index 5.
\<close>

lemma thermal_path_none:
  "2 \<le> psz \<Longrightarrow> find (\<lambda>p. fs p \<noteq> None) g_thermal_path_list = None
   \<Longrightarrow> ccputemp_get_thermal_path psz fs = Undefined (OutOfBounds 5)"
  using thermal_path_from_none[of psz 0 fs]
  by (simp add: ccputemp_get_thermal_path_def) (simp add: g_thermal_path_list_def)

lemma samples_append: "samples (a @ b) = samples a @ samples b"
  by (induction a rule: samples.induct) simp_all

lemma final_report_append: "final_report (a @ b) = final_report a @ final_report b"
  by (induction a rule: final_report.induct) simp_all

lemma ticks_Nil: "ticks [] = 0"
  by (simp add: ticks_def)

lemma ticks_Cons: "ticks (e # es) = (if e = Sleep then 1 else 0) + ticks es"
  by (simp add: ticks_def)

lemma ticks_append: "ticks (a @ b) = ticks a + ticks b"
  by (simp add: ticks_def)

lemma samples_tick_events: "samples (tick_events u s i xs) = xs"
  by (induction xs arbitrary: s i) simp_all

lemma ticks_tick_events: "ticks (tick_events u s i xs) = length xs"
  by (induction xs arbitrary: s i) (simp_all add: ticks_def)

lemma final_report_tick_events: "final_report (tick_events u s i xs) = []"
  by (induction xs arbitrary: s i) simp_all

lemma samples_avg_events: "samples (avg_events xs) = xs"
  by (induction xs) simp_all

lemma ticks_avg_events: "ticks (avg_events xs) = length xs"
  by (induction xs) (simp_all add: ticks_def)

lemma final_report_avg_events: "final_report (avg_events xs) = []"
  by (induction xs) simp_all

lemma prompts_plain:
  "samples (replicate n UnitPrompt) = []" "ticks (replicate n UnitPrompt) = 0"
  "final_report (replicate n UnitPrompt) = []"
  by (induction n) (simp_all add: ticks_def)

lemma do_log_events:
  "samples (snd (ccputemp_do_log fs nm a l h u n)) = []"
  "ticks (snd (ccputemp_do_log fs nm a l h u n)) = 0"
  by (simp_all add: ccputemp_do_log_def ticks_def Let_def split: option.splits)

lemma normal_loop_left:
  assumes "\<forall>j < length xs. read_sample (fs (i + j)) src unit = Some (xs ! j)"
      and "\<forall>j < length xs. \<not> sig (i + j)"
      and "opt_seconds \<noteq> 0 \<longrightarrow> int (i + length xs) \<le> seconds"
      and "sig (i + length xs) \<or> (opt_seconds \<noteq> 0 \<and> seconds \<le> int (i + length xs))"
  shows "ccputemp_do_normal_loop fs sig src unit seconds opt_seconds i s mn mx cv out
       = Some (LoopLeft (i + length xs) (foldl fadd s xs) (foldl min_macro mn xs)
                 (foldl max_macro mx xs)
                 (out @ tick_events (ccputemp_temp_unit_t_to_str unit) s i xs))"
  unfolding normal_loop_ticks[OF assms(1-3)]
  using assms(4) by (subst ccputemp_do_normal_loop.simps) auto

lemma normal_loop_read_failed:
  assumes "\<forall>j < length xs. read_sample (fs (i + j)) src unit = Some (xs ! j)"
      and "\<forall>j \<le> length xs. \<not> sig (i + j)"
      and "opt_seconds \<noteq> 0 \<longrightarrow> int (i + length xs) < seconds"
      and "read_sample (fs (i + length xs)) src unit = None"
  shows "ccputemp_do_normal_loop fs sig src unit seconds opt_seconds i s mn mx cv out
       = Some (ReadFailed (out @ tick_events (ccputemp_temp_unit_t_to_str unit) s i xs
                             @ [ReadError src]))"
proof -
  have a: "\<forall>j < length xs. \<not> sig (i + j)" using assms(2) by simp
  have b: "opt_seconds \<noteq> 0 \<longrightarrow> int (i + length xs) \<le> seconds" using assms(3) by auto
  have c: "\<not> sig (i + length xs)" using assms(2) by simp
  show ?thesis
    unfolding normal_loop_ticks[OF assms(1) a b]
    using assms(3,4) c
    by (subst ccputemp_do_normal_loop.simps) (auto simp: unit_temp_read_sample)
qed

lemma avg_loop_left:
  assumes "\<forall>j < length xs. read_sample (fs (i + j)) src unit = Some (xs ! j)"
      and "i + length xs = nat seconds"
  shows "ccputemp_do_avg_loop fs src unit seconds i s cv out
       = Inr (i + length xs, foldl fadd s xs, out @ avg_events xs)"
proof -
  have b: "i + length xs \<le> nat seconds" using assms(2) by simp
  show ?thesis
    unfolding avg_loop_ticks[OF assms(1) b]
    using assms(2) by (subst ccputemp_do_avg_loop.simps) simp
qed

lemma avg_loop_read_failed:
  assumes "\<forall>j < length xs. read_sample (fs (i + j)) src unit = Some (xs ! j)"
      and "i + length xs < nat seconds"
      and "read_sample (fs (i + length xs)) src unit = None"
  shows "ccputemp_do_avg_loop fs src unit seconds i s cv out
       = Inl (out @ avg_events xs @ [ReadError src])"
proof -
  have b: "i + length xs \<le> nat seconds" using assms(2) by simp
  show ?thesis
    unfolding avg_loop_ticks[OF assms(1) b]
    using assms(2,3) by (subst ccputemp_do_avg_loop.simps) (simp add: unit_temp_read_sample)
qed

lemma reads_as_list:
  assumes "\<forall>j < n. read_ok (fs j) src"
  shows "\<exists>xs. length xs = n \<and> (\<forall>j < length xs. read_sample (fs (0 + j)) src unit = Some (xs ! j))"
proof -
  let ?xs = "map (\<lambda>j. the (read_sample (fs j) src unit)) [0..<n]"
  have "\<forall>j < length ?xs. read_sample (fs (0 + j)) src unit = Some (?xs ! j)"
    using assms by (auto simp: read_ok_sample[of _ _ unit])
  then show ?thesis by (intro exI[of _ ?xs]) simp
qed

lemma prompt_result:
  assumes "opt_unit \<noteq> 0 \<or> (\<exists>c\<in>set stdin. is_unit_answer c)"
  shows "\<exists>c n. (if opt_unit = 0 then unit_prompt_loop (CHR 0x00) stdin [Version]
                else Some (CHR 0x00, [Version])) = Some (c, [Version] @ replicate n UnitPrompt)"
proof (cases "opt_unit = 0")
  case True
  with assms have "\<exists>c\<in>set stdin. is_unit_answer c" by simp
  then have "\<exists>c n. unit_prompt_loop (CHR 0x00) stdin [Version] = Some (c, [Version] @ replicate n UnitPrompt)
           \<and> (c = CHR ''c'' \<or> c = CHR ''f'' \<or> c = CHR ''k'')"
    by (intro unit_prompt_answered) simp
  with True show ?thesis by auto
next
  case False
  then have "(if opt_unit = 0 then unit_prompt_loop (CHR 0x00) stdin [Version]
                else Some (CHR 0x00, [Version])) = Some (CHR 0x00, [Version] @ replicate 0 UnitPrompt)"
    by simp
  then show ?thesis by blast
qed

lemma do_normal_loop_left:
  assumes "ccputemp_get_thermal_path psz (fs 0) = Returned (Some src)"
      and "(if opt_unit = 0 then unit_prompt_loop (CHR 0x00) stdin [Version]
            else Some (CHR 0x00, [Version])) = Some (c, out0)"
      and "u = (if opt_unit = 0
                then (if c = CHR ''c'' then CELSIUS
                      else if c = CHR ''f'' then FAHRENHEIT else KELVIN)
                else unit)"
      and "secs = (if opt_seconds \<noteq> 0 \<and> seconds < 1 then g_default_runtime_secs else seconds)"
      and "ccputemp_do_normal_loop fs sig src u secs opt_seconds 0 0 FLT_MAX FLT_MIN 0 out0
             = Some (LoopLeft i ts mn mx out)"
      and "0 < i"
      and "ccputemp_do_log (fs i) (Some g_default_log_file) (fdiv ts (float_of_nat (i + 1))) mn mx u
             (int (i + 1)) = (r, lout)"
  shows "ccputemp_do_normal psz fs sig stdin opt_unit unit seconds opt_seconds
       = Some (case r of Undefined f \<Rightarrow> Undefined f | Returned x \<Rightarrow> Returned 0,
               out @ [Summary mx mn (fdiv ts (float_of_nat (i + 1))) (ccputemp_temp_unit_t_to_str u)] @ lout)"
  using assms by (cases r) (auto simp: ccputemp_do_normal_def Let_def)

lemma do_normal_read_failed:
  assumes "ccputemp_get_thermal_path psz (fs 0) = Returned (Some src)"
      and "(if opt_unit = 0 then unit_prompt_loop (CHR 0x00) stdin [Version]
            else Some (CHR 0x00, [Version])) = Some (c, out0)"
      and "u = (if opt_unit = 0
                then (if c = CHR ''c'' then CELSIUS
                      else if c = CHR ''f'' then FAHRENHEIT else KELVIN)
                else unit)"
      and "secs = (if opt_seconds \<noteq> 0 \<and> seconds < 1 then g_default_runtime_secs else seconds)"
      and "ccputemp_do_normal_loop fs sig src u secs opt_seconds 0 0 FLT_MAX FLT_MIN 0 out0
             = Some (ReadFailed out)"
  shows "ccputemp_do_normal psz fs sig stdin opt_unit unit seconds opt_seconds
       = Some (Returned (-1), out)"
  using assms by (auto simp: ccputemp_do_normal_def Let_def)

lemma do_normal_bounded_output:
  assumes psz: "1 \<le> psz"
      and src: "find (\<lambda>p. fs 0 p \<noteq> None) g_thermal_path_list = Some src"
      and D: "1 \<le> D"
      and reads: "\<forall>j < nat D. read_ok (fs j) src"
      and opt: "opt_seconds \<noteq> 0"
      and ans: "opt_unit \<noteq> 0 \<or> (\<exists>c\<in>set stdin. is_unit_answer c)"
      and nosig: "\<forall>j < nat D. \<not> sig j"
  shows "\<exists>r n u xs lout.
           ccputemp_do_normal psz fs sig stdin opt_unit unit D opt_seconds
             = Some (r, (([Version] @ replicate n UnitPrompt)
                         @ tick_events (ccputemp_temp_unit_t_to_str u) 0 0 xs)
                        @ [Summary (foldl max_macro FLT_MIN xs) (foldl min_macro FLT_MAX xs)
                             (fdiv (foldl fadd 0 xs) (float_of_nat (0 + length xs + 1)))
                             (ccputemp_temp_unit_t_to_str u)]
                        @ lout)
           \<and> length xs = nat D \<and> samples lout = [] \<and> ticks lout = 0"
proof -
  have loc: "ccputemp_get_thermal_path psz (fs 0) = Returned (Some src)"
    using psz src by (rule thermal_path_found)
  from prompt_result[OF ans] obtain c n where
    pr: "(if opt_unit = 0 then unit_prompt_loop (CHR 0x00) stdin [Version]
          else Some (CHR 0x00, [Version])) = Some (c, [Version] @ replicate n UnitPrompt)"
    by blast
  define u where "u = (if opt_unit = 0
                       then (if c = CHR ''c'' then CELSIUS
                             else if c = CHR ''f'' then FAHRENHEIT else KELVIN)
                       else unit)"
  from reads_as_list[OF reads, of u] obtain xs where
    len: "length xs = nat D"
    and xs: "\<forall>j < length xs. read_sample (fs (0 + j)) src u = Some (xs ! j)" by blast
  have ns: "\<forall>j < length xs. \<not> sig (0 + j)" using nosig len by simp
  have b1: "opt_seconds \<noteq> 0 \<longrightarrow> int (0 + length xs) \<le> D" using len D by simp
  have b2: "sig (0 + length xs) \<or> (opt_seconds \<noteq> 0 \<and> D \<le> int (0 + length xs))"
    using len D opt by simp
  have sec: "D = (if opt_seconds \<noteq> 0 \<and> D < 1 then g_default_runtime_secs else D)"
    using D by simp
  note loop = normal_loop_left[OF xs ns b1 b2, of 0 FLT_MAX FLT_MIN 0
      "[Version] @ replicate n UnitPrompt"]
  have pos: "0 < 0 + length xs" using len D by simp
  obtain r lout where lg: "ccputemp_do_log (fs (0 + length xs)) (Some g_default_log_file)
      (fdiv (foldl fadd 0 xs) (float_of_nat (0 + length xs + 1))) (foldl min_macro FLT_MAX xs)
      (foldl max_macro FLT_MIN xs) u (int (0 + length xs + 1)) = (r, lout)"
    by (meson surj_pair)
  have lout: "samples lout = []" "ticks lout = 0"
    using do_log_events[of "fs (0 + length xs)" "Some g_default_log_file"
      "fdiv (foldl fadd 0 xs) (float_of_nat (0 + length xs + 1))" "foldl min_macro FLT_MAX xs"
      "foldl max_macro FLT_MIN xs" u "int (0 + length xs + 1)"] unfolding lg by simp_all
  note run = do_normal_loop_left[OF loc pr u_def sec loop pos lg]
  show ?thesis using run len lout by blast
qed

lemma do_normal_bounded_run:
  assumes "1 \<le> psz"
      and "find (\<lambda>p. fs 0 p \<noteq> None) g_thermal_path_list = Some src"
      and "1 \<le> D"
      and "\<forall>j < nat D. read_ok (fs j) src"
      and "opt_seconds \<noteq> 0"
      and "opt_unit \<noteq> 0 \<or> (\<exists>c\<in>set stdin. is_unit_answer c)"
      and "\<forall>j < nat D. \<not> sig j"
  shows "\<exists>r out. ccputemp_do_normal psz fs sig stdin opt_unit unit D opt_seconds = Some (r, out)
           \<and> length (samples out) = nat D \<and> ticks out = nat D"
proof -
  from do_normal_bounded_output[OF assms, of unit] obtain r n u xs lout where
    run: "ccputemp_do_normal psz fs sig stdin opt_unit unit D opt_seconds
             = Some (r, (([Version] @ replicate n UnitPrompt)
                         @ tick_events (ccputemp_temp_unit_t_to_str u) 0 0 xs)
                        @ [Summary (foldl max_macro FLT_MIN xs) (foldl min_macro FLT_MAX xs)
                             (fdiv (foldl fadd 0 xs) (float_of_nat (0 + length xs + 1)))
                             (ccputemp_temp_unit_t_to_str u)]
                        @ lout)"
    and len: "length xs = nat D" and lout: "samples lout = []" "ticks lout = 0"
    by blast
  let ?out = "(([Version] @ replicate n UnitPrompt)
              @ tick_events (ccputemp_temp_unit_t_to_str u) 0 0 xs)
              @ [Summary (foldl max_macro FLT_MIN xs) (foldl min_macro FLT_MAX xs)
                   (fdiv (foldl fadd 0 xs) (float_of_nat (0 + length xs + 1))) (ccputemp_temp_unit_t_to_str u)]
              @ lout"
  have "length (samples ?out) = nat D"
    by (simp add: samples_append samples_tick_events prompts_plain lout len)
  moreover have "ticks ?out = nat D"
    by (simp add: ticks_append ticks_Cons ticks_Nil ticks_tick_events prompts_plain lout len)
  ultimately show ?thesis using run by blast
qed

lemma do_avg_bounded_output:
  assumes psz: "1 \<le> psz"
      and src: "find (\<lambda>p. fs 0 p \<noteq> None) g_thermal_path_list = Some src"
      and D: "1 \<le> D"
      and reads: "\<forall>j < nat D. read_ok (fs j) src"
  shows "\<exists>xs. ccputemp_do_avg psz fs opt_unit unit D
               = (Returned 0, ([Version] @ avg_events xs)
                    @ [AverageLine (fdiv (foldl fadd 0 xs) (float_of_int D))
                         (ccputemp_temp_unit_t_to_str unit)])
           \<and> length xs = nat D"
proof -
  have loc: "ccputemp_get_thermal_path psz (fs 0) = Returned (Some src)"
    using psz src by (rule thermal_path_found)
  from reads_as_list[OF reads, of unit] obtain xs where
    len: "length xs = nat D"
    and xs: "\<forall>j < length xs. read_sample (fs (0 + j)) src unit = Some (xs ! j)" by blast
  have e: "0 + length xs = nat D" using len by simp
  note loop = avg_loop_left[OF xs e, of 0 0 "[Version]"]
  have run: "ccputemp_do_avg psz fs opt_unit unit D
      = (Returned 0, ([Version] @ avg_events xs)
           @ [AverageLine (fdiv (foldl fadd 0 xs) (float_of_int D)) (ccputemp_temp_unit_t_to_str unit)])"
    using D loop by (simp add: ccputemp_do_avg_def loc Let_def)
  show ?thesis using run len by blast
qed

lemma do_avg_bounded_run:
  assumes "1 \<le> psz"
      and "find (\<lambda>p. fs 0 p \<noteq> None) g_thermal_path_list = Some src"
      and "1 \<le> D"
      and "\<forall>j < nat D. read_ok (fs j) src"
  shows "\<exists>out. ccputemp_do_avg psz fs opt_unit unit D = (Returned 0, out)
           \<and> length (samples out) = nat D \<and> ticks out = nat D"
proof -
  from do_avg_bounded_output[OF assms, of opt_unit unit] obtain xs where
    run: "ccputemp_do_avg psz fs opt_unit unit D
               = (Returned 0, ([Version] @ avg_events xs)
                    @ [AverageLine (fdiv (foldl fadd 0 xs) (float_of_int D))
                         (ccputemp_temp_unit_t_to_str unit)])"
    and len: "length xs = nat D" by blast
  show ?thesis
    unfolding run
    by (simp add: samples_append samples_avg_events ticks_append ticks_Cons ticks_Nil
        ticks_avg_events len)
qed

text \<open>
  The average mode reports the sum of the samples it has read divided by their number,
  both computed in \<^verbatim>\<open>float\<close>.
\<close>

lemma do_avg_reports_mean:
  assumes "1 \<le> psz"
      and "find (\<lambda>p. fs 0 p \<noteq> None) g_thermal_path_list = Some src"
      and "1 \<le> D"
      and "\<forall>j < nat D. read_ok (fs j) src"
  shows "\<exists>out. ccputemp_do_avg psz fs opt_unit unit D = (Returned 0, out)
           \<and> last out = AverageLine (fdiv (foldl fadd 0 (samples out))
                                    (float_of_nat (length (samples out))))
                             (ccputemp_temp_unit_t_to_str unit)"
proof -
  from do_avg_bounded_output[OF assms, of opt_unit unit] obtain xs where
    run: "ccputemp_do_avg psz fs opt_unit unit D
               = (Returned 0, ([Version] @ avg_events xs)
                    @ [AverageLine (fdiv (foldl fadd 0 xs) (float_of_int D))
                         (ccputemp_temp_unit_t_to_str unit)])"
    and len: "length xs = nat D" by blast
  have "float_of_int D = float_of_nat (length xs)"
    using len assms(3) by (simp add: float_of_int_def float_of_nat_def)
  then show ?thesis
    unfolding run by (simp add: samples_append samples_avg_events)
qed

lemma do_normal_read_failure:
  assumes psz: "1 \<le> psz"
      and src: "find (\<lambda>p. fs 0 p \<noteq> None) g_thermal_path_list = Some src"
      and reads: "\<forall>j < n. read_ok (fs j) src"
      and fails: "\<not> read_ok (fs n) src"
      and ans: "opt_unit \<noteq> 0 \<or> (\<exists>c\<in>set stdin. is_unit_answer c)"
      and nosig: "\<forall>j \<le> n. \<not> sig j"
      and bound: "opt_seconds \<noteq> 0 \<longrightarrow> int n < seconds"
  shows "\<exists>out. ccputemp_do_normal psz fs sig stdin opt_unit unit seconds opt_seconds
                 = Some (Returned (-1), out)
           \<and> length (samples out) = n \<and> final_report out = [] \<and> last out = ReadError src"
proof -
  have loc: "ccputemp_get_thermal_path psz (fs 0) = Returned (Some src)"
    using psz src by (rule thermal_path_found)
  from prompt_result[OF ans] obtain c m where
    pr: "(if opt_unit = 0 then unit_prompt_loop (CHR 0x00) stdin [Version]
          else Some (CHR 0x00, [Version])) = Some (c, [Version] @ replicate m UnitPrompt)"
    by blast
  define u where "u = (if opt_unit = 0
                       then (if c = CHR ''c'' then CELSIUS
                             else if c = CHR ''f'' then FAHRENHEIT else KELVIN)
                       else unit)"
  from reads_as_list[OF reads, of u] obtain xs where
    len: "length xs = n"
    and xs: "\<forall>j < length xs. read_sample (fs (0 + j)) src u = Some (xs ! j)" by blast
  have ns: "\<forall>j \<le> length xs. \<not> sig (0 + j)" using nosig len by simp
  have b: "opt_seconds \<noteq> 0 \<longrightarrow> int (0 + length xs) < seconds" using bound len by simp
  have f: "read_sample (fs (0 + length xs)) src u = None"
    using fails len by (simp add: read_ok_sample[of _ _ u])
  have sec: "seconds = (if opt_seconds \<noteq> 0 \<and> seconds < 1 then g_default_runtime_secs else seconds)"
    using bound by auto
  note loop = normal_loop_read_failed[OF xs ns b f, of 0 FLT_MAX FLT_MIN 0
      "[Version] @ replicate m UnitPrompt"]
  note run = do_normal_read_failed[OF loc pr u_def sec loop]
  let ?out = "([Version] @ replicate m UnitPrompt)
              @ tick_events (ccputemp_temp_unit_t_to_str u) 0 0 xs @ [ReadError src]"
  have "length (samples ?out) = n"
    by (simp add: samples_append samples_tick_events prompts_plain len)
  moreover have "final_report ?out = []"
    by (simp add: final_report_append final_report_tick_events prompts_plain)
  moreover have "last ?out = ReadError src" by simp
  ultimately show ?thesis using run by blast
qed

lemma do_avg_read_failure:
  assumes psz: "1 \<le> psz"
      and src: "find (\<lambda>p. fs 0 p \<noteq> None) g_thermal_path_list = Some src"
      and reads: "\<forall>j < n. read_ok (fs j) src"
      and fails: "\<not> read_ok (fs n) src"
      and bound: "int n < seconds"
  shows "\<exists>out. ccputemp_do_avg psz fs opt_unit unit seconds = (Returned (-1), out)
           \<and> length (samples out) = n \<and> final_report out = [] \<and> last out = ReadError src"
proof -
  have loc: "ccputemp_get_thermal_path psz (fs 0) = Returned (Some src)"
    using psz src by (rule thermal_path_found)
  from reads_as_list[OF reads, of unit] obtain xs where
    len: "length xs = n"
    and xs: "\<forall>j < length xs. read_sample (fs (0 + j)) src unit = Some (xs ! j)" by blast
  have b: "0 + length xs < nat seconds" using bound len by simp
  have f: "read_sample (fs (0 + length xs)) src unit = None"
    using fails len by (simp add: read_ok_sample[of _ _ unit])
  note loop = avg_loop_read_failed[OF xs b f, of 0 0 "[Version]"]
  have run: "ccputemp_do_avg psz fs opt_unit unit seconds
      = (Returned (-1), [Version] @ avg_events xs @ [ReadError src])"
    using bound loop by (simp add: ccputemp_do_avg_def loc Let_def)
  show ?thesis
    unfolding run
    by (simp add: samples_append samples_avg_events final_report_append
        final_report_avg_events len)
qed


section \<open>Properties\<close>

text \<open>
  C1. A run of the normal mode bounded to 2 seconds, on a source that reads 40 degrees
  Celsius at both ticks, reports the average 13981013/524288 = 26.666666...: the sum 80 of
  the 2 samples divided by 3, in \<^verbatim>\<open>float\<close>.
\<close>

theorem normal_average_divides_by_count_plus_one:
  "ccputemp_do_normal 8 (sensor (\<lambda>t. ''40000'' @ [newline])) (\<lambda>i. False) [] 1 CELSIUS 2 1
   = Some (Returned 0,
           [Version, Sample 40, TickLine 40 ''Celsius'' 1, Sleep,
            Sample 40, TickLine 40 ''Celsius'' 2, Sleep,
            Summary 40 40 (13981013 / 524288) ''Celsius'', LogNotFound ''/var/log/cputemp.log''])"
  by code_simp

text \<open>
  C2. On a file system that has none of the five candidates (here it has one other file),
  the locator does not return the null pointer: it goes on past the fifth candidate, with
  4-byte pointers as with 8-byte ones.
\<close>

theorem thermal_path_no_candidate_not_null:
  "ccputemp_get_thermal_path 8 [''/var/log/cputemp.log'' \<mapsto> read_only_file []] \<noteq> Returned None
   \<and> ccputemp_get_thermal_path 4 [''/var/log/cputemp.log'' \<mapsto> read_only_file []]
       = Undefined (OutOfBounds 5)"
  by code_simp

text \<open>
  C3. With 8-byte pointers the loop bound of \<^verbatim>\<open>ccputemp_get_thermal_path\<close> is 40 while the
  array has 5 elements, and when no candidate exists the loop reads the array at index 5.
\<close>

theorem thermal_path_index_past_the_end:
  "length g_thermal_path_list = 5
   \<and> g_thermal_path_list_len 8 = 40
   \<and> ccputemp_get_thermal_path 8 Map.empty = Undefined (OutOfBounds 5)"
  by code_simp

text \<open>
  C4, as the code has it. The sample reader returns -1 exactly when an argument is null,
  the source cannot be opened, or no first line can be read (a read error, or a file with
  no bytes). On every other input it returns 0 and stores a value; that includes contents
  that cannot be parsed as an integer, for which the value is 0.
\<close>

theorem sample_reader_fails_exactly_when:
  "(fst (ccputemp_get_thermal_value_from_file fs src val) = -1)
     = (src = None \<or> val = None
        \<or> (\<exists>path. src = Some path \<and>
              (fopen_r fs path = None
               \<or> (\<exists>f. fopen_r fs path = Some f \<and> (read_error f \<or> bytes f = [])))))
   \<and> (fst (ccputemp_get_thermal_value_from_file fs src val) \<noteq> -1 \<longrightarrow>
        (\<exists>v. ccputemp_get_thermal_value_from_file fs src val = (0, Some v)))
   \<and> (\<forall>path old f. src = Some path \<and> val = Some old \<and> fopen_r fs path = Some f
         \<and> \<not> read_error f \<and> bytes f \<noteq> []
         \<and> \<not> begins_with_integer (take 31 (first_line (bytes f))) \<longrightarrow>
        ccputemp_get_thermal_value_from_file fs src val = (0, Some 0))"
proof -
  have A: "(fst (ccputemp_get_thermal_value_from_file fs src val) = -1)
     = (src = None \<or> val = None
        \<or> (\<exists>path. src = Some path \<and>
              (fopen_r fs path = None
               \<or> (\<exists>f. fopen_r fs path = Some f \<and> (read_error f \<or> bytes f = [])))))"
    by (cases src; cases val)
       (auto simp: ccputemp_get_thermal_value_from_file_def fgets_def split: option.splits)
  have B: "\<exists>v. ccputemp_get_thermal_value_from_file fs src val = (0, Some v)"
    if "fst (ccputemp_get_thermal_value_from_file fs src val) \<noteq> -1"
    using that by (cases src; cases val)
       (auto simp: ccputemp_get_thermal_value_from_file_def split: option.splits)
  have C: "ccputemp_get_thermal_value_from_file fs src val = (0, Some 0)"
    if "src = Some path" "val = Some old" "fopen_r fs path = Some f"
       "\<not> read_error f" "bytes f \<noteq> []"
       "\<not> begins_with_integer (take 31 (first_line (bytes f)))" for path old f
    using that(1-5) atoi_no_integer[OF that(6)]
    by (simp add: sample_reader_cases fgets_def float_of_int_def float_round_def)
  show ?thesis using A B C by blast
qed

theorem sample_reader_fails_exactly_when_witness:
  "ccputemp_get_thermal_value_from_file
      [''/proc/acpi/thermal_zone/THM0/temperature'' \<mapsto> read_only_file (''temperature: 45 C'' @ [newline])]
      (Some ''/proc/acpi/thermal_zone/THM0/temperature'') (Some 7) = (0, Some 0)
   \<and> fst (ccputemp_get_thermal_value_from_file Map.empty (Some ''/proc/acpi/thermal_zone/THM0/temperature'') (Some 7)) = -1"
proof -
  let ?p = "''/proc/acpi/thermal_zone/THM0/temperature''"
  let ?f = "read_only_file (''temperature: 45 C'' @ [newline])"
  let ?fs = "[?p \<mapsto> ?f]"
  have h1: "fopen_r ?fs ?p = Some ?f" by (simp add: fopen_r_def read_only_file_def)
  have h2: "\<not> read_error ?f" "bytes ?f \<noteq> []" by (simp_all add: read_only_file_def)
  have h3: "\<not> begins_with_integer (take 31 (first_line (bytes ?f)))"
    by (simp add: read_only_file_def begins_with_integer_def isspace_def isdigit_def newline_def)
  have h4: "fopen_r Map.empty ?p = None" by (simp add: fopen_r_def)
  from sample_reader_fails_exactly_when[of ?fs "Some ?p" "Some 7"] h1 h2 h3
  have a: "ccputemp_get_thermal_value_from_file ?fs (Some ?p) (Some 7) = (0, Some 0)" by blast
  from sample_reader_fails_exactly_when[of Map.empty "Some ?p" "Some 7"] h4
  have b: "fst (ccputemp_get_thermal_value_from_file Map.empty (Some ?p) (Some 7)) = -1" by blast
  show ?thesis using a b by blast
qed

text \<open>
  C4 as stated fails: the contents \<^verbatim>\<open>abc\<close> cannot be parsed as an integer, and the sample
  reader returns success, with the value 0.
\<close>

theorem unparsable_contents_read_as_zero:
  "\<not> begins_with_integer (''abc'' @ [newline])
   \<and> ccputemp_get_thermal_value_from_file
        [''/proc/acpi/thermal_zone/THRM/temperature'' \<mapsto> read_only_file (''abc'' @ [newline])]
        (Some ''/proc/acpi/thermal_zone/THRM/temperature'') (Some 7)
      = (0, Some 0)"
  by code_simp

text \<open>
  C5. For a source whose first line is \<^verbatim>\<open>45500\<close>, the sample reader stores 45, not 45.5:
  the division by 1000 is done on \<^verbatim>\<open>int\<close>s, before the conversion to \<^verbatim>\<open>float\<close>.
\<close>

theorem sample_45500_reads_as_45:
  "ccputemp_get_thermal_value_from_file
      [''/proc/acpi/thermal_zone/THRM/temperature'' \<mapsto> read_only_file (''45500'' @ [newline])]
      (Some ''/proc/acpi/thermal_zone/THRM/temperature'') (Some 0)
   = (0, Some 45)"
  by code_simp

text \<open>
  C6. A run of the normal mode over one sample of -5 degrees Celsius prints \<^verbatim>\<open>FLT_MIN\<close>,
  a positive number, as the highest temperature: \<^verbatim>\<open>temp_max\<close> starts at \<^verbatim>\<open>FLT_MIN\<close>, the
  least positive normal \<^verbatim>\<open>float\<close>, and no sample below it replaces it.
\<close>

theorem highest_of_negative_samples_is_FLT_MIN:
  "ccputemp_do_normal 8 (sensor (\<lambda>t. ''-5000'' @ [newline])) (\<lambda>i. False) [] 1 CELSIUS 1 1
   = Some (Returned 0,
           [Version, Sample (- 5), TickLine (- 5) ''Celsius'' 1, Sleep,
            Summary FLT_MIN (- 5) (- 5 / 2) ''Celsius'', LogNotFound ''/var/log/cputemp.log''])
   \<and> 0 < FLT_MIN"
  by code_simp

text \<open>
  C7. Let the source be found, and let the read of the tick after \<open>n\<close> successful ticks
  fail. A run of the normal mode that reaches this tick (its unit is known, no interruption
  is seen up to then, and a bounded run lasts longer than \<open>n\<close> seconds) returns -1 at once:
  the last thing it does is the error message, it has read \<open>n\<close> samples, and it prints no
  summary and writes no log entry. The same holds for the average mode.
\<close>

theorem read_failure_ends_run:
  assumes "1 \<le> psz"
      and "find (\<lambda>p. fs 0 p \<noteq> None) g_thermal_path_list = Some src"
      and "\<forall>j < n. read_ok (fs j) src"
      and "\<not> read_ok (fs n) src"
  shows "((opt_unit \<noteq> 0 \<or> (\<exists>c\<in>set stdin. is_unit_answer c)) \<and> (\<forall>j \<le> n. \<not> sig j)
            \<and> (opt_seconds \<noteq> 0 \<longrightarrow> int n < seconds)
          \<longrightarrow> (\<exists>out. ccputemp_do_normal psz fs sig stdin opt_unit unit seconds opt_seconds
                        = Some (Returned (-1), out)
                 \<and> length (samples out) = n \<and> final_report out = []
                 \<and> last out = ReadError src))
       \<and> (int n < seconds
          \<longrightarrow> (\<exists>out. ccputemp_do_avg psz fs opt_unit unit seconds = (Returned (-1), out)
                 \<and> length (samples out) = n \<and> final_report out = []
                 \<and> last out = ReadError src))"
  using do_normal_read_failure[OF assms] do_avg_read_failure[OF assms] by blast

theorem read_failure_ends_run_witness:
  "(\<exists>out. ccputemp_do_normal 8 (sensor (\<lambda>t. if t < 1 then ''40000'' @ [newline] else []))
        (\<lambda>i. False) [] 1 CELSIUS 3 1 = Some (Returned (-1), out)
      \<and> length (samples out) = 1 \<and> final_report out = []
      \<and> last out = ReadError ''/proc/acpi/thermal_zone/THRM/temperature'')
   \<and> (\<exists>out. ccputemp_do_avg 8 (sensor (\<lambda>t. if t < 1 then ''40000'' @ [newline] else []))
        1 CELSIUS 3 = (Returned (-1), out)
      \<and> length (samples out) = 1 \<and> final_report out = []
      \<and> last out = ReadError ''/proc/acpi/thermal_zone/THRM/temperature'')"
proof -
  let ?p = "''/proc/acpi/thermal_zone/THRM/temperature''"
  let ?fs = "sensor (\<lambda>t. if t < 1 then ''40000'' @ [newline] else [])"
  have h1: "(1::nat) \<le> 8" by simp
  have h2: "find (\<lambda>p. ?fs 0 p \<noteq> None) g_thermal_path_list = Some ?p"
    by (simp add: g_thermal_path_list_def sensor_def)
  have h3: "\<forall>j < 1. read_ok (?fs j) ?p"
    by (simp add: read_ok_def sample_reader_cases fopen_r_def fgets_def read_only_file_def sensor_def)
  have h4: "\<not> read_ok (?fs 1) ?p"
    by (simp add: read_ok_def sample_reader_cases fopen_r_def fgets_def read_only_file_def sensor_def)
  have h5: "((1::int) \<noteq> 0 \<or> (\<exists>c\<in>set []. is_unit_answer c)) \<and> (\<forall>j \<le> (1::nat). \<not> (\<lambda>i. False) j)
            \<and> ((1::int) \<noteq> 0 \<longrightarrow> int 1 < 3)"
    by simp
  have h6: "int 1 < 3" by simp
  show ?thesis
    using read_failure_ends_run[OF h1 h2 h3 h4, of 1 "[]" "\<lambda>i. False" 1 3 CELSIUS] h5 h6
    by blast
qed

text \<open>
  C8. When the log file exists and cannot be opened for appending, the logger prints its
  message and then passes the null stream to \<^verbatim>\<open>fprintf\<close>; a run of the normal mode that
  has collected its samples ends there and returns no status.
\<close>

theorem log_cannot_open_null_stream:
  "ccputemp_do_log [''/var/log/cputemp.log'' \<mapsto> read_only_file []] (Some g_default_log_file)
      40 40 40 CELSIUS 2
   = (Undefined NullStream, [LogCannotOpen ''/var/log/cputemp.log''])
   \<and> ccputemp_do_normal 8
       (\<lambda>t. [''/proc/acpi/thermal_zone/THRM/temperature'' \<mapsto> read_only_file (''40000'' @ [newline]),
             ''/var/log/cputemp.log'' \<mapsto> read_only_file []])
       (\<lambda>i. False) [] 1 CELSIUS 1 1
     = Some (Undefined NullStream,
             [Version, Sample 40, TickLine 40 ''Celsius'' 1, Sleep,
              Summary 40 40 20 ''Celsius'', LogCannotOpen ''/var/log/cputemp.log''])"
  by code_simp

text \<open>
  C9. Let the source be found, \<open>D \<ge> 1\<close>, and let every read of the first \<open>D\<close> ticks succeed.
  A run of the normal mode with the seconds flag and the duration \<open>D\<close>, whose unit is known
  and which sees no interruption, ends after exactly \<open>D\<close> ticks: it has read \<open>D\<close> samples and
  slept \<open>D\<close> times. So does a run of the average mode with the duration \<open>D\<close>.
\<close>

theorem bounded_run_makes_D_ticks:
  assumes "1 \<le> psz"
      and "find (\<lambda>p. fs 0 p \<noteq> None) g_thermal_path_list = Some src"
      and "1 \<le> D"
      and "\<forall>j < nat D. read_ok (fs j) src"
  shows "(opt_seconds \<noteq> 0 \<and> (opt_unit \<noteq> 0 \<or> (\<exists>c\<in>set stdin. is_unit_answer c))
            \<and> (\<forall>j < nat D. \<not> sig j)
          \<longrightarrow> (\<exists>r out. ccputemp_do_normal psz fs sig stdin opt_unit unit D opt_seconds = Some (r, out)
                 \<and> length (samples out) = nat D \<and> ticks out = nat D))
       \<and> (\<exists>out. ccputemp_do_avg psz fs opt_unit unit D = (Returned 0, out)
            \<and> length (samples out) = nat D \<and> ticks out = nat D)"
  using do_normal_bounded_run[OF assms] do_avg_bounded_run[OF assms] by blast

theorem bounded_run_makes_D_ticks_witness:
  "(\<exists>r out. ccputemp_do_normal 8 (sensor (\<lambda>t. ''40000'' @ [newline])) (\<lambda>i. False) ''k'' 0 CELSIUS 2 1
               = Some (r, out)
      \<and> length (samples out) = 2 \<and> ticks out = 2)
   \<and> (\<exists>out. ccputemp_do_avg 8 (sensor (\<lambda>t. ''40000'' @ [newline])) 0 CELSIUS 2 = (Returned 0, out)
      \<and> length (samples out) = 2 \<and> ticks out = 2)"
proof -
  let ?p = "''/proc/acpi/thermal_zone/THRM/temperature''"
  let ?fs = "sensor (\<lambda>t. ''40000'' @ [newline])"
  have h1: "(1::nat) \<le> 8" by simp
  have h2: "find (\<lambda>p. ?fs 0 p \<noteq> None) g_thermal_path_list = Some ?p"
    by (simp add: g_thermal_path_list_def sensor_def)
  have h3: "(1::int) \<le> 2" by simp
  have h4: "\<forall>j < nat 2. read_ok (?fs j) ?p"
    by (simp add: read_ok_def sample_reader_cases fopen_r_def fgets_def read_only_file_def sensor_def)
  have h5: "(1::int) \<noteq> 0 \<and> ((0::int) \<noteq> 0 \<or> (\<exists>c\<in>set ''k''. is_unit_answer c))
            \<and> (\<forall>j < nat 2. \<not> (\<lambda>i. False) j)"
    by (simp add: is_unit_answer_def tolower_def)
  have n2: "nat 2 = 2" by simp
  show ?thesis
    using bounded_run_makes_D_ticks[OF h1 h2 h3 h4, of 1 0 "''k''" "\<lambda>i. False" CELSIUS] h5
    unfolding n2 by blast
qed

text \<open>
  C10, as the code has it. The unit converter is a total function of its two arguments
  alone. For every Celsius value \<open>c\<close> of magnitude up to \<^verbatim>\<open>FLT_MAX\<close>/2 (so that no result
  overflows): Celsius is returned unchanged; Fahrenheit is \<^verbatim>\<open>1.8f * c + 32.0f\<close> and Kelvin
  is \<^verbatim>\<open>c + 273.15f\<close>, computed in \<^verbatim>\<open>float\<close>, and they differ from \<open>1.8 * c + 32\<close> and from
  \<open>c + 273.15\<close> by at most the fraction \<open>2^-22\<close> of \<open>1.8 * |c| + 32\<close> and of \<open>|c| + 273.15\<close>.
  0 degrees Celsius are exactly 32 degrees Fahrenheit, and \<^verbatim>\<open>273.15f\<close> Kelvin, which is
  8950579/32768 = 273.149993896484375.
\<close>

theorem convert_unit_rounded_formulas:
  assumes "\<bar>c\<bar> \<le> FLT_MAX / 2"
  shows "ccputemp_convert_unit_from_celsius c CELSIUS = c
   \<and> ccputemp_convert_unit_from_celsius c FAHRENHEIT
       = float_round (float_round (float_round 1.8 * c) + float_round 32)
   \<and> ccputemp_convert_unit_from_celsius c KELVIN = float_round (c + float_round 273.15)
   \<and> \<bar>ccputemp_convert_unit_from_celsius c FAHRENHEIT - (1.8 * c + 32)\<bar>
       \<le> (1.8 * \<bar>c\<bar> + 32) / 2 ^ 22
   \<and> \<bar>ccputemp_convert_unit_from_celsius c KELVIN - (c + 273.15)\<bar>
       \<le> (\<bar>c\<bar> + 273.15) / 2 ^ 22
   \<and> ccputemp_convert_unit_from_celsius 0 FAHRENHEIT = 32
   \<and> ccputemp_convert_unit_from_celsius 0 KELVIN = 8950579 / 32768"
proof -
  have f: "ccputemp_convert_unit_from_celsius c FAHRENHEIT
       = float_round (float_round (float_round 1.8 * c) + float_round 32)"
    unfolding ccputemp_convert_unit_from_celsius_def fadd_def fmul_def by simp
  have k: "ccputemp_convert_unit_from_celsius c KELVIN = float_round (c + float_round 273.15)"
    unfolding ccputemp_convert_unit_from_celsius_def fadd_def by simp
  have z: "ccputemp_convert_unit_from_celsius 0 FAHRENHEIT = 32"
    "ccputemp_convert_unit_from_celsius 0 KELVIN = 8950579 / 32768"
    by code_simp+
  show ?thesis
    using f k z convert_fahrenheit_error[of c] convert_kelvin_error[of c]
    by (simp add: ccputemp_convert_unit_from_celsius_def)
qed

theorem convert_unit_rounded_formulas_witness:
  "ccputemp_convert_unit_from_celsius 37 CELSIUS = 37
   \<and> \<bar>ccputemp_convert_unit_from_celsius 37 FAHRENHEIT - (1.8 * 37 + 32)\<bar>
       \<le> (1.8 * \<bar>37\<bar> + 32) / 2 ^ 22
   \<and> \<bar>ccputemp_convert_unit_from_celsius 37 KELVIN - (37 + 273.15)\<bar>
       \<le> (\<bar>37\<bar> + 273.15) / 2 ^ 22"
proof -
  have h: "\<bar>37 :: real\<bar> \<le> FLT_MAX / 2" by (simp add: FLT_MAX_def)
  show ?thesis
    using convert_unit_rounded_formulas[OF h] by blast
qed

text \<open>
  C10 as stated fails: the converter does not give 273.15 Kelvin for 0 degrees Celsius,
  nor \<open>1.8 * 37 + 32\<close> degrees Fahrenheit for 37 degrees Celsius.
\<close>

theorem convert_zero_kelvin_is_not_273_15:
  "ccputemp_convert_unit_from_celsius 0 KELVIN \<noteq> 273.15
   \<and> ccputemp_convert_unit_from_celsius 37 FAHRENHEIT \<noteq> 1.8 * 37 + 32"
  by code_simp

end
